theory Spec2Isabelle
  imports Complex_Main
begin

section \<open>Data model (types/api)\<close>

text \<open>
  The string unions of the type declarations become datatypes. \<open>TaskStatus\<close> and
  \<open>ProcessingStage\<close> both have the members 'completed' and 'failed'; the members of
  \<open>TaskStatus\<close> are capitalised here to keep the two apart.
\<close>

datatype TaskStatus = Pending | Running | Completed | Failed | Cancelled

datatype ProcessingStage =
    idle | searching | downloading | parsing | extracting
  | normalizing | aggregating | completed | failed

text \<open>
  \<open>interface TaskProgress\<close>. The counts are JSON integers, the percentage a JSON number;
  the optional \<open>current_paper\<close> is \<open>None\<close> when the property is absent.
\<close>

record TaskProgress =
  task_id :: string
  stage :: ProcessingStage
  progress :: real
  message :: string
  current_paper :: "string option"
  processed :: int
  total :: int
  timestamp :: string

text \<open>
  \<open>interface TaskStatusResponse\<close>, restricted to the seven properties the message handlers
  read. The properties \<open>task_id\<close>, \<open>stage\<close> and \<open>progress\<close> carry the prefix \<open>status_\<close>
  because a record field is a constant of the theory and \<open>TaskProgress\<close> owns those names.
\<close>

record TaskStatusResponse =
  status_task_id :: string
  status_stage :: ProcessingStage
  status_progress :: real
  current_paper_title :: "string option"
  processed_papers :: int
  total_papers :: int
  updated_at :: "string option"

text \<open>
  \<open>interface WSMessage\<close>: the \<open>type\<close> discriminator with the payload the protocol sends
  for it. \<open>OtherMsg\<close> is any other JSON value whose \<open>type\<close> property is none of the four
  (reading \<open>.type\<close> of it yields a string the handlers do not know, or \<open>undefined\<close>).
\<close>

datatype WSMessage =
    ProgressMsg TaskProgress
  | StatusMsg TaskStatusResponse
  | CompletedMsg
  | ErrorMsg string
  | OtherMsg

text \<open>
  What \<open>event.data\<close> of a message event holds: a text that is not JSON (\<open>JSON.parse\<close>
  throws a SyntaxError on it; the keep-alive texts ping and pong are such texts), the
  JSON text \<open>null\<close> (\<open>JSON.parse\<close> returns \<open>null\<close>), or the JSON text of an envelope.
\<close>

datatype frame = Text string | JsonNull | Json WSMessage

text \<open>
  The values the modelled code throws or is rejected with: the built-in SyntaxError and
  TypeError, a plain \<open>new Error(message)\<close>, and any other rejection of \<open>fetch\<close> (an
  AbortError, a DOMException), which is not an instance of TypeError.
\<close>

datatype thrown = SyntaxError | TypeError | Error string | OtherRejection

fun JSON_parse :: "frame \<Rightarrow> thrown + WSMessage option" where
  "JSON_parse (Text d) = Inl SyntaxError"
| "JSON_parse JsonNull = Inr None"
| "JSON_parse (Json m) = Inr (Some m)"

section \<open>The browser objects the two effects use\<close>

datatype ReadyState = CONNECTING | OPEN | CLOSING | CLOSED

text \<open>
  A \<open>WebSocket\<close> object: its address, its \<open>readyState\<close>, and whether an \<open>onclose\<close> handler is
  attached. The handlers \<open>onopen\<close>, \<open>onmessage\<close> and \<open>onerror\<close> are attached by \<open>connect\<close> and
  never detached, so they need no field.
\<close>

record WebSocket =
  url :: string
  readyState :: ReadyState
  onclose :: bool

definition createWebSocket :: "string \<Rightarrow> WebSocket" where
  "createWebSocket taskId =
     \<lparr>url = ''wss://paper-agent-production.up.railway.app'' @ ''/ws/'' @ taskId,
      readyState = CONNECTING, onclose = False\<rparr>"

text \<open>
  \<open>WebSocket.close()\<close> of the browser: nothing happens on a socket that is closing or
  closed, any other socket starts closing. It never throws when called without arguments.
\<close>

definition close :: "WebSocket \<Rightarrow> WebSocket" where
  "close w =
     (if readyState w = CLOSING \<or> readyState w = CLOSED then w
      else w\<lparr>readyState := CLOSING\<rparr>)"

datatype QueryKey =
    TaskStatusKey string
  | TaskResultsKey string
  | TaskAnalyticsKey string
  | ActiveTaskKey
  | TasksKey

text \<open>
  Everything the two effects read or write.
  \<^item> \<open>store_taskProgress\<close>, \<open>wsConnected\<close>: the \<open>taskProgress\<close> and \<open>wsConnected\<close> fields of
    the zustand store \<open>useTaskStore\<close> (TaskDetail); its setters write them at once.
  \<^item> \<open>taskProgress\<close>, \<open>taskProgressRef\<close>: the \<open>useState\<close> value and the \<open>useRef\<close> mirror of
    the Analysis component. \<open>taskProgress\<close> is the value last passed to \<open>setTaskProgress\<close>.
  \<^item> \<open>ws\<close>, \<open>reconnectTimeout\<close>, \<open>isMounted\<close>: the three \<open>let\<close> variables of an effect run.
    \<open>ws\<close> is an index into \<open>sockets\<close>, the sockets created so far.
  \<^item> \<open>timers\<close>: the pending timeouts as (id, milliseconds); \<open>timerCount\<close>: how many
    \<open>setTimeout\<close> calls were made (the browser numbers timers from 1).
  \<^item> \<open>sent\<close>: the \<open>ws.send\<close> calls as (socket, text); \<open>invalidated\<close>: the
    \<open>queryClient.invalidateQueries\<close> calls; \<open>refetchActiveTask_calls\<close>: the number of
    \<open>refetchActiveTask()\<close> calls.
\<close>

record world =
  store_taskProgress :: "TaskProgress option"
  wsConnected :: bool
  taskProgress :: "TaskProgress option"
  taskProgressRef :: "TaskProgress option"
  ws :: "nat option"
  sockets :: "WebSocket list"
  reconnectTimeout :: "nat option"
  isMounted :: bool
  timers :: "(nat \<times> nat) list"
  timerCount :: nat
  sent :: "(nat \<times> string) list"
  invalidated :: "QueryKey list"
  refetchActiveTask_calls :: nat

definition setTimeout :: "nat \<Rightarrow> world \<Rightarrow> nat \<times> world" where
  "setTimeout ms s =
     (let t = Suc (timerCount s)
      in (t, s\<lparr>timers := timers s @ [(t, ms)], timerCount := t\<rparr>))"

definition clearTimeout :: "nat \<Rightarrow> world \<Rightarrow> world" where
  "clearTimeout t s = s\<lparr>timers := filter (\<lambda>p. fst p \<noteq> t) (timers s)\<rparr>"

section \<open>The status snapshot both handlers build\<close>

text \<open>JavaScript's \<open>a || b\<close> on an optional string: \<open>undefined\<close> and the empty string are falsy.\<close>

fun or_else :: "string option \<Rightarrow> string \<Rightarrow> string" where
  "or_else None d = d"
| "or_else (Some v) d = (if v = [] then d else v)"

text \<open>
  The object literal passed to \<open>setTaskProgress\<close> in the status branch. \<open>now\<close> is what
  \<open>new Date().toISOString()\<close> returns when the handler runs.
\<close>

definition status_snapshot :: "string \<Rightarrow> TaskStatusResponse \<Rightarrow> TaskProgress" where
  "status_snapshot now statusData =
     \<lparr>task_id = status_task_id statusData,
      stage = status_stage statusData,
      progress = status_progress statusData,
      message = ''Processing '' @ or_else (current_paper_title statusData) ''...'',
      current_paper = current_paper_title statusData,
      processed = processed_papers statusData,
      total = total_papers statusData,
      timestamp = or_else (updated_at statusData) now\<rparr>"

text \<open>
  The guard of the status branch, \<open>!currentProgress || statusData.processed_papers >
  currentProgress.processed\<close>.
\<close>

fun status_guard :: "TaskProgress option \<Rightarrow> TaskStatusResponse \<Rightarrow> bool" where
  "status_guard None statusData = True"
| "status_guard (Some currentProgress) statusData =
     (processed_papers statusData > processed currentProgress)"

section \<open>TaskDetail: the WebSocket effect\<close>

text \<open>
  The body of the \<open>try\<close> block of \<open>ws.onmessage\<close>: \<open>Inl\<close> is a value thrown inside it.
  Reading \<open>.type\<close> of \<open>null\<close> throws a TypeError.
\<close>

definition TaskDetail_try :: "string \<Rightarrow> string \<Rightarrow> frame \<Rightarrow> world \<Rightarrow> thrown + world" where
  "TaskDetail_try taskId now f s =
     (case JSON_parse f of
        Inl e \<Rightarrow> Inl e
      | Inr None \<Rightarrow> Inl TypeError
      | Inr (Some (ProgressMsg p)) \<Rightarrow> Inr (s\<lparr>store_taskProgress := Some p\<rparr>)
      | Inr (Some (StatusMsg statusData)) \<Rightarrow>
          (let currentProgress = store_taskProgress s
           in if status_guard currentProgress statusData
              then Inr (s\<lparr>store_taskProgress := Some (status_snapshot now statusData)\<rparr>)
              else Inr s)
      | Inr (Some CompletedMsg) \<Rightarrow>
          Inr (s\<lparr>invalidated := invalidated s @
                 [TaskStatusKey taskId, TaskResultsKey taskId,
                  TaskAnalyticsKey taskId, ActiveTaskKey]\<rparr>)
      | Inr (Some (ErrorMsg e)) \<Rightarrow> Inr s
      | Inr (Some OtherMsg) \<Rightarrow> Inr s)"

text \<open>
  \<open>ws.send(d)\<close> on the socket the variable \<open>ws\<close> holds; the handlers call it only behind
  the test \<open>&& ws\<close>.
\<close>

definition ws_send :: "string \<Rightarrow> world \<Rightarrow> world" where
  "ws_send d s =
     (case ws s of
        None \<Rightarrow> s
      | Some w \<Rightarrow> s\<lparr>sent := sent s @ [(w, d)]\<rparr>)"

definition event_data_is :: "frame \<Rightarrow> string \<Rightarrow> bool" where
  "event_data_is f t = (case f of Text d \<Rightarrow> d = t | JsonNull \<Rightarrow> False | Json m \<Rightarrow> False)"

text \<open>\<open>ws.onmessage\<close>: the keep-alive texts first, then the \<open>try\<close> block with its empty \<open>catch\<close>.\<close>

definition TaskDetail_onmessage :: "string \<Rightarrow> string \<Rightarrow> frame \<Rightarrow> world \<Rightarrow> world" where
  "TaskDetail_onmessage taskId now f s =
     (if event_data_is f ''ping'' \<or> event_data_is f ''pong''
      then (if event_data_is f ''ping'' \<and> ws s \<noteq> None then ws_send ''pong'' s else s)
      else (case TaskDetail_try taskId now f s of
              Inl e \<Rightarrow> s
            | Inr s' \<Rightarrow> s'))"

definition TaskDetail_onopen :: "world \<Rightarrow> world" where
  "TaskDetail_onopen s = s\<lparr>wsConnected := True\<rparr>"

definition TaskDetail_onerror :: "world \<Rightarrow> world" where
  "TaskDetail_onerror s = s"

text \<open>
  \<open>ws.onclose\<close>. \<open>status\<close> is \<open>status?.status\<close> as the effect's closure holds it
  (\<open>None\<close> for \<open>undefined\<close>).
\<close>

definition TaskDetail_onclose :: "TaskStatus option \<Rightarrow> world \<Rightarrow> world" where
  "TaskDetail_onclose status s =
     (let s1 = s\<lparr>wsConnected := False\<rparr>
      in if isMounted s1 \<and> status = Some Running
         then (let (t, s2) = setTimeout 2000 s1 in s2\<lparr>reconnectTimeout := Some t\<rparr>)
         else s1)"

text \<open>\<open>connect\<close>: a new socket with the four handlers attached, unless unmounted.\<close>

definition connect :: "string \<Rightarrow> world \<Rightarrow> world" where
  "connect taskId s =
     (if \<not> isMounted s then s
      else s\<lparr>ws := Some (length (sockets s)),
             sockets := sockets s @ [(createWebSocket taskId)\<lparr>onclose := True\<rparr>]\<rparr>)"

text \<open>
  The cleanup the effect returns. \<open>if (reconnectTimeout)\<close> is false for \<open>null\<close> and for 0;
  \<open>ws.onclose = null\<close> comes before \<open>ws.close()\<close>.
\<close>

definition cleanup :: "world \<Rightarrow> world" where
  "cleanup s =
     (let s1 = s\<lparr>isMounted := False\<rparr>;
          s2 = (case reconnectTimeout s1 of
                  None \<Rightarrow> s1
                | Some t \<Rightarrow> if t = 0 then s1 else clearTimeout t s1)
      in case ws s2 of
           None \<Rightarrow> s2
         | Some w \<Rightarrow>
             if w < length (sockets s2)
             then s2\<lparr>sockets := (sockets s2)[w := close ((sockets s2 ! w)\<lparr>onclose := False\<rparr>)]\<rparr>
             else s2)"

text \<open>
  The effect body of TaskDetail: the early return, or the three fresh variables and the
  first \<open>connect()\<close>. \<open>taskId\<close> comes from \<open>useParams\<close> and may be \<open>undefined\<close>.
\<close>

definition TaskDetail_effect :: "string option \<Rightarrow> TaskStatus option \<Rightarrow> world \<Rightarrow> world" where
  "TaskDetail_effect taskId status s =
     (if or_else taskId [] = [] \<or> status \<noteq> Some Running
      then s\<lparr>wsConnected := False\<rparr>
      else connect (or_else taskId [])
             (s\<lparr>ws := None, reconnectTimeout := None, isMounted := True\<rparr>))"

section \<open>Analysis: the WebSocket effect\<close>

text \<open>
  The effect \<open>taskProgressRef.current = taskProgress\<close>, which React runs after a render
  in which \<open>taskProgress\<close> changed.
\<close>

definition syncRef :: "world \<Rightarrow> world" where
  "syncRef s = s\<lparr>taskProgressRef := taskProgress s\<rparr>"

definition Analysis_try :: "string \<Rightarrow> frame \<Rightarrow> world \<Rightarrow> thrown + world" where
  "Analysis_try now f s =
     (case JSON_parse f of
        Inl e \<Rightarrow> Inl e
      | Inr None \<Rightarrow> Inl TypeError
      | Inr (Some (ProgressMsg p)) \<Rightarrow> Inr (s\<lparr>taskProgress := Some p\<rparr>)
      | Inr (Some (StatusMsg statusData)) \<Rightarrow>
          (let currentProgress = taskProgressRef s
           in if status_guard currentProgress statusData
              then Inr (s\<lparr>taskProgress := Some (status_snapshot now statusData)\<rparr>)
              else Inr s)
      | Inr (Some CompletedMsg) \<Rightarrow>
          Inr (s\<lparr>taskProgress := None,
                 refetchActiveTask_calls := Suc (refetchActiveTask_calls s),
                 invalidated := invalidated s @ [TasksKey]\<rparr>)
      | Inr (Some (ErrorMsg e)) \<Rightarrow> Inr s
      | Inr (Some OtherMsg) \<Rightarrow> Inr s)"

definition Analysis_onmessage :: "string \<Rightarrow> frame \<Rightarrow> world \<Rightarrow> world" where
  "Analysis_onmessage now f s =
     (if event_data_is f ''ping'' \<or> event_data_is f ''pong''
      then (if event_data_is f ''ping'' \<and> ws s \<noteq> None then ws_send ''pong'' s else s)
      else (case Analysis_try now f s of
              Inl e \<Rightarrow> s
            | Inr s' \<Rightarrow> s'))"

definition Analysis_onopen :: "world \<Rightarrow> world" where
  "Analysis_onopen s = s"

definition Analysis_onerror :: "world \<Rightarrow> world" where
  "Analysis_onerror s = s"

text \<open>\<open>ws.onclose\<close>. \<open>status\<close> is \<open>activeTask.status\<close> as the effect's closure holds it.\<close>

definition Analysis_onclose :: "TaskStatus option \<Rightarrow> world \<Rightarrow> world" where
  "Analysis_onclose status s =
     (if isMounted s \<and> status = Some Running
      then (let (t, s2) = setTimeout 2000 s in s2\<lparr>reconnectTimeout := Some t\<rparr>)
      else s)"

text \<open>
  The effect body of Analysis. \<open>activeTask\<close> is \<open>None\<close> when the query has no data,
  otherwise its \<open>task_id\<close> and \<open>status\<close>.
\<close>

definition Analysis_effect :: "(string \<times> TaskStatus) option \<Rightarrow> world \<Rightarrow> world" where
  "Analysis_effect activeTask s =
     (case activeTask of
        None \<Rightarrow> s\<lparr>taskProgress := None\<rparr>
      | Some (tid, status) \<Rightarrow>
          if tid = [] \<or> status \<noteq> Running
          then s\<lparr>taskProgress := None\<rparr>
          else connect tid (s\<lparr>ws := None, reconnectTimeout := None, isMounted := True\<rparr>))"

section \<open>Events of the browser, delivered to an effect run\<close>

text \<open>
  The events that reach the variables of one effect run, each naming the socket or timer
  it belongs to: the transport events of a socket, a reconnect timer that fires, the
  cleanup React calls, and (for Analysis) a render after which the ref effect has run.
  \<open>MessageEv i now f\<close> carries the clock reading \<open>now\<close> at which the handler runs.
  No event is excluded by the socket's state, so a statement about every sequence of
  events covers every order a browser can produce.
\<close>

datatype event =
    OpenEv nat
  | MessageEv nat string frame
  | ErrorEv nat
  | CloseEv nat
  | TimerEv nat
  | CleanupEv
  | RenderEv

definition set_readyState :: "nat \<Rightarrow> ReadyState \<Rightarrow> world \<Rightarrow> world" where
  "set_readyState i r s = s\<lparr>sockets := (sockets s)[i := (sockets s ! i)\<lparr>readyState := r\<rparr>]\<rparr>"

text \<open>
  The browser runs a timer's callback only while the timer is pending, and a socket's
  \<open>onclose\<close> only when one is attached. Every reconnect timer's callback is \<open>connect()\<close>.
\<close>

definition timer_pending :: "nat \<Rightarrow> world \<Rightarrow> bool" where
  "timer_pending t s = (t \<in> fst ` set (timers s))"

fun TaskDetail_step :: "string \<Rightarrow> TaskStatus option \<Rightarrow> world \<Rightarrow> event \<Rightarrow> world" where
  "TaskDetail_step taskId status s (OpenEv i) =
     (if i < length (sockets s) then TaskDetail_onopen (set_readyState i OPEN s) else s)"
| "TaskDetail_step taskId status s (MessageEv i now f) =
     (if i < length (sockets s) then TaskDetail_onmessage taskId now f s else s)"
| "TaskDetail_step taskId status s (ErrorEv i) =
     (if i < length (sockets s) then TaskDetail_onerror s else s)"
| "TaskDetail_step taskId status s (CloseEv i) =
     (if i < length (sockets s)
      then (if onclose (sockets s ! i)
            then TaskDetail_onclose status (set_readyState i CLOSED s)
            else set_readyState i CLOSED s)
      else s)"
| "TaskDetail_step taskId status s (TimerEv t) =
     (if timer_pending t s then connect taskId (clearTimeout t s) else s)"
| "TaskDetail_step taskId status s CleanupEv = cleanup s"
| "TaskDetail_step taskId status s RenderEv = s"

fun Analysis_step :: "string \<Rightarrow> TaskStatus option \<Rightarrow> world \<Rightarrow> event \<Rightarrow> world" where
  "Analysis_step taskId status s (OpenEv i) =
     (if i < length (sockets s) then Analysis_onopen (set_readyState i OPEN s) else s)"
| "Analysis_step taskId status s (MessageEv i now f) =
     (if i < length (sockets s) then Analysis_onmessage now f s else s)"
| "Analysis_step taskId status s (ErrorEv i) =
     (if i < length (sockets s) then Analysis_onerror s else s)"
| "Analysis_step taskId status s (CloseEv i) =
     (if i < length (sockets s)
      then (if onclose (sockets s ! i)
            then Analysis_onclose status (set_readyState i CLOSED s)
            else set_readyState i CLOSED s)
      else s)"
| "Analysis_step taskId status s (TimerEv t) =
     (if timer_pending t s then connect taskId (clearTimeout t s) else s)"
| "Analysis_step taskId status s CleanupEv = cleanup s"
| "Analysis_step taskId status s RenderEv = syncRef s"

text \<open>A world before any effect has run: empty store, empty component state, no socket.\<close>

definition world0 :: world where
  "world0 =
     \<lparr>store_taskProgress = None, wsConnected = False,
      taskProgress = None, taskProgressRef = None,
      ws = None, sockets = [], reconnectTimeout = None, isMounted = False,
      timers = [], timerCount = 0, sent = [], invalidated = [],
      refetchActiveTask_calls = 0\<rparr>"

section \<open>lib/api: fetchApi\<close>

definition API_BASE :: string where
  "API_BASE = ''https://paper-agent-production.up.railway.app''"

text \<open>
  The values \<open>response.json()\<close> resolves to. A number is given by the text \<open>String\<close> makes
  of it (\<open>''422''\<close>, \<open>''1.5''\<close>, \<open>''1e+21''\<close>; both zeros are \<open>''0''\<close>), which is all the code
  can observe of it. An object lists its members in the order of the JSON text.
\<close>

datatype json =
    JNull
  | JBool bool
  | JNumber string
  | JString string
  | JArray "json list"
  | JObject "(string \<times> json) list"

text \<open>
  A response as far as \<open>fetchApi\<close> reads it. A body that is not JSON is \<open>None\<close> in \<open>body\<close>:
  \<open>response.json()\<close> rejects with a SyntaxError.
\<close>

record Response =
  ok :: bool
  status :: nat
  body :: "json option"

datatype fetch_result = Rejected thrown | Resolved Response

text \<open>What a call does besides settling: the requests it issues and the delays it awaits.\<close>

datatype effect = Fetch string | Wait nat

fun string_of_digit :: "nat \<Rightarrow> string" where
  "string_of_digit n = [''0123456789'' ! n]"

function string_of_nat :: "nat \<Rightarrow> string" where
  "string_of_nat n =
     (if n < 10 then string_of_digit n
      else string_of_nat (n div 10) @ string_of_digit (n mod 10))"
  by pat_completeness auto
termination
  by (relation "measure id") auto

text \<open>
  An own member of an object \<open>JSON.parse\<close> has built: of two members with the same name
  the later one stays.
\<close>

definition own_property :: "(string \<times> json) list \<Rightarrow> string \<Rightarrow> json option" where
  "own_property members key = map_of (rev members) key"

text \<open>
  The read \<open>v.detail\<close> of a JSON value: a TypeError on \<open>null\<close>, the member of an object
  (\<open>None\<close> is \<open>undefined\<close>), and \<open>undefined\<close> on a boolean, a number, a string or an array,
  none of which has a property of that name.
\<close>

fun get_detail :: "json \<Rightarrow> thrown + json option" where
  "get_detail JNull = Inl TypeError"
| "get_detail (JObject members) = Inr (own_property members ''detail'')"
| "get_detail v = Inr None"

text \<open>
  \<open>const error = await response.json().catch(() => ({ detail: 'Unknown error' }))\<close>
  followed by the read of \<open>error.detail\<close>: the fallback object when the body is not JSON.
\<close>

fun error_detail :: "json option \<Rightarrow> thrown + json option" where
  "error_detail None = Inr (Some (JString ''Unknown error''))"
| "error_detail (Some v) = get_detail v"

text \<open>
  JavaScript's truthiness of what a property read gives: \<open>undefined\<close>, \<open>null\<close>, \<open>false\<close>,
  zero and the empty string are falsy, every array and every object is truthy.
\<close>

fun truthy :: "json option \<Rightarrow> bool" where
  "truthy None = False"
| "truthy (Some JNull) = False"
| "truthy (Some (JBool b)) = b"
| "truthy (Some (JNumber t)) = (t \<noteq> ''0'')"
| "truthy (Some (JString s)) = (s \<noteq> [])"
| "truthy (Some (JArray xs)) = True"
| "truthy (Some (JObject members)) = True"

text \<open>
  \<open>String(v)\<close>, which \<open>new Error(v)\<close> applies to its argument; \<open>None\<close> is the TypeError it
  throws. An array joins its elements with commas, \<open>null\<close> elements as empty texts. A
  plain object is \<open>[object Object]\<close>, unless it has an own member named \<open>toString\<close>: that
  member is no function, the inherited \<open>valueOf\<close> returns the object itself, and the
  conversion throws.
\<close>

fun ToString :: "json \<Rightarrow> string option"
  and join :: "json list \<Rightarrow> string option" where
  "ToString JNull = Some ''null''"
| "ToString (JBool b) = Some (if b then ''true'' else ''false'')"
| "ToString (JNumber t) = Some t"
| "ToString (JString s) = Some s"
| "ToString (JArray xs) = join xs"
| "ToString (JObject members) =
     (if own_property members ''toString'' = None then Some ''[object Object]'' else None)"
| "join [] = Some []"
| "join (x # xs) =
     (case (if x = JNull then Some [] else ToString x) of
        None \<Rightarrow> None
      | Some a \<Rightarrow>
          if xs = [] then Some a
          else (case join xs of None \<Rightarrow> None | Some b \<Rightarrow> Some (a @ '','' @ b)))"

text \<open>
  What \<open>throw new Error(error.detail || fallback)\<close> throws: the Error whose message is the
  text of the detail when the detail is truthy and of the fallback otherwise, or the
  TypeError of a detail that cannot be made a text.
\<close>

definition new_Error :: "json option \<Rightarrow> string \<Rightarrow> thrown" where
  "new_Error detail fallback =
     (case detail of
        None \<Rightarrow> Error fallback
      | Some v \<Rightarrow>
          if truthy (Some v)
          then (case ToString v of None \<Rightarrow> TypeError | Some m \<Rightarrow> Error m)
          else Error fallback)"

text \<open>
  One pass through the \<open>try\<close> block. \<open>Throws e\<close>: \<open>e\<close> is thrown inside the block and reaches
  the \<open>catch\<close>. \<open>Returns r\<close>: the block returns the promise \<open>response.json()\<close> without
  awaiting it, so \<open>r\<close> settles the call itself, also when it is a rejection.
\<close>

datatype attempt = Throws thrown | Returns "thrown + json"

fun try_block :: "fetch_result \<Rightarrow> attempt" where
  "try_block (Rejected e) = Throws e"
| "try_block (Resolved response) =
     (if \<not> ok response
      then (case error_detail (body response) of
              Inl e \<Rightarrow> Throws e
            | Inr detail \<Rightarrow>
                Throws (new_Error detail (''HTTP error '' @ string_of_nat (status response))))
      else Returns (case body response of None \<Rightarrow> Inl SyntaxError | Some v \<Rightarrow> Inr v))"

text \<open>
  The \<open>for\<close> loop. \<open>fetch k\<close> is how the \<open>fetch\<close> call of the pass with \<open>attempt = k\<close>
  settles; the effects so far are threaded through.
\<close>

function fetchApi_loop ::
  "(int \<Rightarrow> fetch_result) \<Rightarrow> string \<Rightarrow> int \<Rightarrow> int \<Rightarrow> effect list
   \<Rightarrow> (thrown + json) \<times> effect list" where
  "fetchApi_loop fetch request_url retries attempt trace =
     (if attempt \<le> retries
      then (case try_block (fetch attempt) of
              Returns r \<Rightarrow> (r, trace @ [Fetch request_url])
            | Throws error \<Rightarrow>
                if attempt < retries \<and> error = TypeError
                then fetchApi_loop fetch request_url retries (attempt + 1)
                       (trace @ [Fetch request_url, Wait 1000])
                else (Inl error, trace @ [Fetch request_url]))
      else (Inl (Error ''Failed after retries''), trace))"
  by pat_completeness auto
termination
  by (relation "measure (\<lambda>(fetch, url, retries, attempt, trace). nat (retries + 1 - attempt))") auto

text \<open>\<open>fetchApi(endpoint, options, retries = 2)\<close>; no caller in lib/api passes \<open>retries\<close>.\<close>

definition fetchApi ::
  "(int \<Rightarrow> fetch_result) \<Rightarrow> string \<Rightarrow> int option
   \<Rightarrow> (thrown + json) \<times> effect list" where
  "fetchApi fetch endpoint retries =
     fetchApi_loop fetch (API_BASE @ endpoint) (case retries of None \<Rightarrow> 2 | Some r \<Rightarrow> r) 0 []"

definition checkHealth :: "(int \<Rightarrow> fetch_result) \<Rightarrow> (thrown + json) \<times> effect list" where
  "checkHealth fetch = fetchApi fetch ''/health'' None"

definition getTaskStatus ::
  "(int \<Rightarrow> fetch_result) \<Rightarrow> string \<Rightarrow> (thrown + json) \<times> effect list" where
  "getTaskStatus fetch taskId = fetchApi fetch (''/api/tasks/'' @ taskId) None"

definition getActiveTask :: "(int \<Rightarrow> fetch_result) \<Rightarrow> (thrown + json) \<times> effect list" where
  "getActiveTask fetch = fetchApi fetch ''/api/active-task'' None"

text \<open>
  An attempt is retried when a TypeError reaches the \<open>catch\<close>; the last pass, and a pass
  that is not retried, settles the call with what the \<open>try\<close> block threw or returned.
\<close>

definition retryable :: "fetch_result \<Rightarrow> bool" where
  "retryable r = (try_block r = Throws TypeError)"

fun settle :: "attempt \<Rightarrow> thrown + json" where
  "settle (Throws e) = Inl e"
| "settle (Returns r) = r"

section \<open>Drops and reconnects\<close>

text \<open>
  One round of an unexpected drop while the task is running: the close event of the
  socket \<open>ws\<close> holds, then the timer that \<open>onclose\<close> has just scheduled fires.
\<close>

definition TaskDetail_drop_and_retry :: "string \<Rightarrow> world \<Rightarrow> world" where
  "TaskDetail_drop_and_retry taskId s =
     (case ws s of
        None \<Rightarrow> s
      | Some w \<Rightarrow>
          TaskDetail_step taskId (Some Running)
            (TaskDetail_step taskId (Some Running) s (CloseEv w))
            (TimerEv (Suc (timerCount s))))"

definition Analysis_drop_and_retry :: "string \<Rightarrow> world \<Rightarrow> world" where
  "Analysis_drop_and_retry taskId s =
     (case ws s of
        None \<Rightarrow> s
      | Some w \<Rightarrow>
          Analysis_step taskId (Some Running)
            (Analysis_step taskId (Some Running) s (CloseEv w))
            (TimerEv (Suc (timerCount s))))"

text \<open>
  The effect is running: mounted, and \<open>ws\<close> holds a socket whose \<open>onclose\<close> is attached.
\<close>

definition live :: "world \<Rightarrow> bool" where
  "live s = (isMounted s \<and>
     (case ws s of None \<Rightarrow> False | Some w \<Rightarrow> w < length (sockets s) \<and> onclose (sockets s ! w)))"

text \<open>
  The events that cannot replace a held snapshot \<open>p\<close> once the guard of the status
  branch compares against \<open>p\<close>: every event but a progress message, a completed message
  and a status message that counts more than \<open>p\<close>.
\<close>

fun keeps :: "TaskProgress \<Rightarrow> event \<Rightarrow> bool" where
  "keeps p (MessageEv i now (Json (StatusMsg statusData))) = (processed_papers statusData \<le> processed p)"
| "keeps p (MessageEv i now (Json (ProgressMsg q))) = False"
| "keeps p (MessageEv i now (Json CompletedMsg)) = False"
| "keeps p ev = True"

section \<open>Sample values\<close>

text \<open>
  A progress payload and a status payload with a chosen count, and the world right after
  the effect of TaskDetail has started for the running task t1: one socket, still
  connecting, held by \<open>ws\<close>.
\<close>

definition progress_of :: "int \<Rightarrow> TaskProgress" where
  "progress_of n =
     \<lparr>task_id = ''t1'', stage = parsing, progress = 50, message = ''Parsing'',
      current_paper = None, processed = n, total = 10,
      timestamp = ''2024-01-01T00:00:00Z''\<rparr>"

definition status_of :: "int \<Rightarrow> TaskStatusResponse" where
  "status_of n =
     \<lparr>status_task_id = ''t1'', status_stage = parsing, status_progress = 40,
      current_paper_title = None, processed_papers = n, total_papers = 10,
      updated_at = None\<rparr>"

definition started :: world where
  "started = TaskDetail_effect (Some ''t1'') (Some Running) world0"

text \<open>
  Three networks: one where every \<open>fetch\<close> fails with a TypeError, one where the third
  \<open>fetch\<close> succeeds, and one that answers every request with the same response.
\<close>

definition failing :: "int \<Rightarrow> fetch_result" where
  "failing k = Rejected TypeError"

definition third_time_lucky :: "int \<Rightarrow> fetch_result" where
  "third_time_lucky k =
     (if k < 2 then Rejected TypeError
      else Resolved \<lparr>ok = True, status = 200,
                      body = Some (JObject [(''status'', JString ''healthy'')])\<rparr>)"

definition answers :: "Response \<Rightarrow> int \<Rightarrow> fetch_result" where
  "answers response k = Resolved response"

text \<open>
  The body of a 422 response as a validation layer writes it: \<open>detail\<close> is a list of
  objects.
\<close>

definition validation_error :: json where
  "validation_error =
     JObject [(''detail'',
       JArray [JObject [(''loc'', JArray [JString ''body'', JString ''query'']),
                        (''msg'', JString ''field required''),
                        (''type'', JString ''value_error.missing'')]])]"

section \<open>What the handlers do to each kind of frame\<close>

lemma event_data_is_simps [simp]:
  "event_data_is (Text d) t = (d = t)"
  "event_data_is JsonNull t = False"
  "event_data_is (Json m) t = False"
  by (simp_all add: event_data_is_def)

lemma started_eq:
  "started = world0\<lparr>ws := Some 0, isMounted := True,
     sockets := [\<lparr>url = ''wss://paper-agent-production.up.railway.app/ws/t1'', readyState = CONNECTING, onclose = True\<rparr>]\<rparr>"
  by (simp add: started_def TaskDetail_effect_def connect_def world0_def createWebSocket_def)

lemma Analysis_started_eq:
  "Analysis_effect (Some (''t1'', Running)) world0 = started"
  by (simp add: started_eq Analysis_effect_def connect_def world0_def createWebSocket_def)

lemma TaskDetail_onmessage_Text:
  "TaskDetail_onmessage taskId now (Text d) s =
     (if d = ''ping'' \<and> ws s \<noteq> None then ws_send ''pong'' s else s)"
  by (simp add: TaskDetail_onmessage_def TaskDetail_try_def)

lemma TaskDetail_onmessage_JsonNull:
  "TaskDetail_onmessage taskId now JsonNull s = s"
  by (simp add: TaskDetail_onmessage_def TaskDetail_try_def)

lemma TaskDetail_onmessage_Json:
  "TaskDetail_onmessage taskId now (Json (ProgressMsg p)) s = s\<lparr>store_taskProgress := Some p\<rparr>"
  "TaskDetail_onmessage taskId now (Json (StatusMsg sd)) s =
     (if status_guard (store_taskProgress s) sd
      then s\<lparr>store_taskProgress := Some (status_snapshot now sd)\<rparr> else s)"
  "TaskDetail_onmessage taskId now (Json CompletedMsg) s =
     s\<lparr>invalidated := invalidated s @
          [TaskStatusKey taskId, TaskResultsKey taskId, TaskAnalyticsKey taskId, ActiveTaskKey]\<rparr>"
  "TaskDetail_onmessage taskId now (Json (ErrorMsg e)) s = s"
  "TaskDetail_onmessage taskId now (Json OtherMsg) s = s"
  by (simp_all add: TaskDetail_onmessage_def TaskDetail_try_def)

lemma Analysis_onmessage_Text:
  "Analysis_onmessage now (Text d) s =
     (if d = ''ping'' \<and> ws s \<noteq> None then ws_send ''pong'' s else s)"
  by (simp add: Analysis_onmessage_def Analysis_try_def)

lemma Analysis_onmessage_JsonNull:
  "Analysis_onmessage now JsonNull s = s"
  by (simp add: Analysis_onmessage_def Analysis_try_def)

lemma Analysis_onmessage_Json:
  "Analysis_onmessage now (Json (ProgressMsg p)) s = s\<lparr>taskProgress := Some p\<rparr>"
  "Analysis_onmessage now (Json (StatusMsg sd)) s =
     (if status_guard (taskProgressRef s) sd
      then s\<lparr>taskProgress := Some (status_snapshot now sd)\<rparr> else s)"
  "Analysis_onmessage now (Json CompletedMsg) s =
     s\<lparr>taskProgress := None,
       refetchActiveTask_calls := Suc (refetchActiveTask_calls s),
       invalidated := invalidated s @ [TasksKey]\<rparr>"
  "Analysis_onmessage now (Json (ErrorMsg e)) s = s"
  "Analysis_onmessage now (Json OtherMsg) s = s"
  by (simp_all add: Analysis_onmessage_def Analysis_try_def)

lemmas onmessage_simps =
  TaskDetail_onmessage_Text TaskDetail_onmessage_JsonNull TaskDetail_onmessage_Json
  Analysis_onmessage_Text Analysis_onmessage_JsonNull Analysis_onmessage_Json

lemma ws_send_frame:
  "ws (ws_send d s) = ws s"
  "sockets (ws_send d s) = sockets s"
  "reconnectTimeout (ws_send d s) = reconnectTimeout s"
  "isMounted (ws_send d s) = isMounted s"
  "timers (ws_send d s) = timers s"
  "timerCount (ws_send d s) = timerCount s"
  "wsConnected (ws_send d s) = wsConnected s"
  by (simp_all add: ws_send_def split: option.splits)

lemma TaskDetail_onmessage_frame:
  "ws (TaskDetail_onmessage taskId now f s) = ws s"
  "sockets (TaskDetail_onmessage taskId now f s) = sockets s"
  "reconnectTimeout (TaskDetail_onmessage taskId now f s) = reconnectTimeout s"
  "isMounted (TaskDetail_onmessage taskId now f s) = isMounted s"
  "timers (TaskDetail_onmessage taskId now f s) = timers s"
  "timerCount (TaskDetail_onmessage taskId now f s) = timerCount s"
  "wsConnected (TaskDetail_onmessage taskId now f s) = wsConnected s"
proof -
  have "ws (TaskDetail_onmessage taskId now f s) = ws s
      \<and> sockets (TaskDetail_onmessage taskId now f s) = sockets s
      \<and> reconnectTimeout (TaskDetail_onmessage taskId now f s) = reconnectTimeout s
      \<and> isMounted (TaskDetail_onmessage taskId now f s) = isMounted s
      \<and> timers (TaskDetail_onmessage taskId now f s) = timers s
      \<and> timerCount (TaskDetail_onmessage taskId now f s) = timerCount s
      \<and> wsConnected (TaskDetail_onmessage taskId now f s) = wsConnected s"
  proof (cases f)
    case (Text d)
    then show ?thesis by (simp add: onmessage_simps ws_send_frame)
  next
    case JsonNull
    then show ?thesis by (simp add: onmessage_simps)
  next
    case (Json m)
    then show ?thesis by (cases m) (simp_all add: onmessage_simps)
  qed
  then show
    "ws (TaskDetail_onmessage taskId now f s) = ws s"
    "sockets (TaskDetail_onmessage taskId now f s) = sockets s"
    "reconnectTimeout (TaskDetail_onmessage taskId now f s) = reconnectTimeout s"
    "isMounted (TaskDetail_onmessage taskId now f s) = isMounted s"
    "timers (TaskDetail_onmessage taskId now f s) = timers s"
    "timerCount (TaskDetail_onmessage taskId now f s) = timerCount s"
    "wsConnected (TaskDetail_onmessage taskId now f s) = wsConnected s"
    by simp_all
qed

lemma Analysis_onmessage_frame:
  "ws (Analysis_onmessage now f s) = ws s"
  "sockets (Analysis_onmessage now f s) = sockets s"
  "reconnectTimeout (Analysis_onmessage now f s) = reconnectTimeout s"
  "isMounted (Analysis_onmessage now f s) = isMounted s"
  "timers (Analysis_onmessage now f s) = timers s"
  "timerCount (Analysis_onmessage now f s) = timerCount s"
  "wsConnected (Analysis_onmessage now f s) = wsConnected s"
proof -
  have "ws (Analysis_onmessage now f s) = ws s
      \<and> sockets (Analysis_onmessage now f s) = sockets s
      \<and> reconnectTimeout (Analysis_onmessage now f s) = reconnectTimeout s
      \<and> isMounted (Analysis_onmessage now f s) = isMounted s
      \<and> timers (Analysis_onmessage now f s) = timers s
      \<and> timerCount (Analysis_onmessage now f s) = timerCount s
      \<and> wsConnected (Analysis_onmessage now f s) = wsConnected s"
  proof (cases f)
    case (Text d)
    then show ?thesis by (simp add: onmessage_simps ws_send_frame)
  next
    case JsonNull
    then show ?thesis by (simp add: onmessage_simps)
  next
    case (Json m)
    then show ?thesis by (cases m) (simp_all add: onmessage_simps)
  qed
  then show
    "ws (Analysis_onmessage now f s) = ws s"
    "sockets (Analysis_onmessage now f s) = sockets s"
    "reconnectTimeout (Analysis_onmessage now f s) = reconnectTimeout s"
    "isMounted (Analysis_onmessage now f s) = isMounted s"
    "timers (Analysis_onmessage now f s) = timers s"
    "timerCount (Analysis_onmessage now f s) = timerCount s"
    "wsConnected (Analysis_onmessage now f s) = wsConnected s"
    by simp_all
qed

section \<open>Keep-alive frames\<close>

text \<open>
  C7. While the variable \<open>ws\<close> holds a socket, an inbound ping text makes the handler call
  \<open>ws.send('pong')\<close> exactly once and changes nothing else of the world; an inbound pong
  text changes nothing at all. This holds for the handler of TaskDetail and for the
  handler of Analysis.
\<close>

theorem C7_keepalive:
  assumes "ws s = Some w"
  shows "TaskDetail_onmessage taskId now (Text ''ping'') s = s\<lparr>sent := sent s @ [(w, ''pong'')]\<rparr>
       \<and> TaskDetail_onmessage taskId now (Text ''pong'') s = s
       \<and> Analysis_onmessage now (Text ''ping'') s = s\<lparr>sent := sent s @ [(w, ''pong'')]\<rparr>
       \<and> Analysis_onmessage now (Text ''pong'') s = s"
  using assms by (simp add: TaskDetail_onmessage_def Analysis_onmessage_def ws_send_def)

text \<open>C7 at the world right after the effect started: one pong on socket 0, no snapshot.\<close>

theorem C7_keepalive_witness:
  "ws started = Some 0
   \<and> sent (TaskDetail_onmessage ''t1'' ''12:00'' (Text ''ping'') started) = [(0, ''pong'')]
   \<and> store_taskProgress (TaskDetail_onmessage ''t1'' ''12:00'' (Text ''ping'') started) = None
   \<and> sent (Analysis_onmessage ''12:00'' (Text ''ping'') started) = [(0, ''pong'')]
   \<and> sent (Analysis_onmessage ''12:00'' (Text ''pong'') started) = []"
proof -
  have w: "ws started = Some 0" by (simp add: started_eq)
  have s: "sent started = []" "store_taskProgress started = None" by (simp_all add: started_eq world0_def)
  show ?thesis using C7_keepalive [OF w, where taskId = "''t1''" and now = "''12:00''"] w s by simp
qed

section \<open>Frames that are not JSON\<close>

text \<open>
  C8. For a frame whose text is not JSON and is neither ping nor pong, \<open>JSON.parse\<close> throws
  inside the \<open>try\<close> block, the empty \<open>catch\<close> swallows it, and the handler returns the
  world it was given: the snapshot, the connectivity flag and every socket are unchanged,
  nothing is thrown to the caller. This holds for both handlers, and for the event as the
  browser delivers it. The same holds for the JSON text \<open>null\<close>, where reading \<open>.type\<close>
  throws a TypeError inside the \<open>try\<close> block, and for a JSON value of an unknown type.
\<close>

theorem C8_malformed:
  assumes "d \<noteq> ''ping''" and "d \<noteq> ''pong''"
  shows "TaskDetail_try taskId now (Text d) s = Inl SyntaxError
       \<and> TaskDetail_onmessage taskId now (Text d) s = s
       \<and> TaskDetail_step taskId st s (MessageEv i now (Text d)) = s
       \<and> Analysis_try now (Text d) s = Inl SyntaxError
       \<and> Analysis_onmessage now (Text d) s = s
       \<and> Analysis_step taskId st s (MessageEv i now (Text d)) = s
       \<and> TaskDetail_try taskId now JsonNull s = Inl TypeError
       \<and> TaskDetail_onmessage taskId now JsonNull s = s
       \<and> Analysis_try now JsonNull s = Inl TypeError
       \<and> Analysis_onmessage now JsonNull s = s
       \<and> TaskDetail_onmessage taskId now (Json OtherMsg) s = s
       \<and> Analysis_onmessage now (Json OtherMsg) s = s"
  using assms
  by (simp add: TaskDetail_onmessage_def TaskDetail_try_def Analysis_onmessage_def Analysis_try_def)

text \<open>C8 at a truncated frame.\<close>

theorem C8_malformed_witness:
  "''{not json'' \<noteq> ''ping'' \<and> ''{not json'' \<noteq> ''pong''
   \<and> TaskDetail_onmessage ''t1'' ''12:00'' (Text ''{not json'') started = started
   \<and> Analysis_onmessage ''12:00'' (Text ''{not json'') started = started"
proof -
  have a: "''{not json'' \<noteq> ''ping''" and b: "''{not json'' \<noteq> ''pong''" by simp_all
  show ?thesis using C8_malformed [OF a b, where taskId = "''t1''" and now = "''12:00''" and s = started] a b by simp
qed

section \<open>The completed message\<close>

text \<open>
  C3, as the code has it. On a completed message the handler of Analysis clears its
  snapshot, calls \<open>refetchActiveTask()\<close> once and invalidates the tasks query once; the
  handler of TaskDetail leaves the store's snapshot as it is and invalidates the four
  queries taskStatus, taskResults, taskAnalytics and activeTask once each. Neither does
  anything else: no request is made by the handler itself.
\<close>

theorem C3_completed:
  "TaskDetail_onmessage taskId now (Json CompletedMsg) s =
     s\<lparr>invalidated := invalidated s @
          [TaskStatusKey taskId, TaskResultsKey taskId, TaskAnalyticsKey taskId, ActiveTaskKey]\<rparr>
   \<and> Analysis_onmessage now (Json CompletedMsg) s =
     s\<lparr>taskProgress := None,
       refetchActiveTask_calls := Suc (refetchActiveTask_calls s),
       invalidated := invalidated s @ [TasksKey]\<rparr>"
  by (simp add: TaskDetail_onmessage_def TaskDetail_try_def Analysis_onmessage_def Analysis_try_def)

text \<open>C3 as stated fails at TaskDetail: a held snapshot survives the completed message.\<close>

theorem C3_counterexample:
  "store_taskProgress
     (TaskDetail_onmessage ''t1'' ''12:00'' (Json CompletedMsg)
        (started\<lparr>store_taskProgress := Some (progress_of 5)\<rparr>)) = Some (progress_of 5)"
  by (simp add: TaskDetail_onmessage_def TaskDetail_try_def)

text \<open>C3 at concrete worlds of both call sites.\<close>

theorem C3_completed_witness:
  "taskProgress (Analysis_onmessage ''12:00'' (Json CompletedMsg)
       (started\<lparr>taskProgress := Some (progress_of 5)\<rparr>)) = None
   \<and> refetchActiveTask_calls (Analysis_onmessage ''12:00'' (Json CompletedMsg)
       (started\<lparr>taskProgress := Some (progress_of 5)\<rparr>)) = 1
   \<and> invalidated (TaskDetail_onmessage ''t1'' ''12:00'' (Json CompletedMsg) started) =
       [TaskStatusKey ''t1'', TaskResultsKey ''t1'', TaskAnalyticsKey ''t1'', ActiveTaskKey]"
  using C3_completed [of "''t1''" "''12:00''" started]
        C3_completed [of "''t1''" "''12:00''" "started\<lparr>taskProgress := Some (progress_of 5)\<rparr>"]
  by (simp add: started_eq world0_def)

section \<open>The connectivity flag\<close>

text \<open>
  C9, as the code has it. The handlers of TaskDetail set the store's \<open>wsConnected\<close> to true
  on open and to false on close. The handlers of Analysis keep no connectivity flag:
  \<open>onopen\<close> changes nothing and \<open>onclose\<close> leaves \<open>wsConnected\<close> as it was.
\<close>

theorem C9_connectivity:
  "TaskDetail_onopen s = s\<lparr>wsConnected := True\<rparr>
   \<and> wsConnected (TaskDetail_onclose st s) = False
   \<and> Analysis_onopen s = s
   \<and> wsConnected (Analysis_onclose st s) = wsConnected s"
  by (simp add: TaskDetail_onopen_def TaskDetail_onclose_def Analysis_onopen_def
        Analysis_onclose_def setTimeout_def Let_def)

text \<open>C9 as stated fails at Analysis: open leaves the flag false, close leaves it true.\<close>

theorem C9_counterexample:
  "wsConnected (Analysis_step ''t1'' (Some Running) started (OpenEv 0)) = False
   \<and> wsConnected (Analysis_step ''t1'' (Some Running) (started\<lparr>wsConnected := True\<rparr>) (CloseEv 0)) = True"
  by (simp add: started_eq world0_def Analysis_onopen_def Analysis_onclose_def setTimeout_def
        set_readyState_def Let_def)

text \<open>C9 at the world right after the effect started.\<close>

theorem C9_connectivity_witness:
  "wsConnected (TaskDetail_onopen started) = True
   \<and> wsConnected (TaskDetail_onclose (Some Running) (TaskDetail_onopen started)) = False"
  using C9_connectivity [of started "Some Running"]
        C9_connectivity [of "TaskDetail_onopen started" "Some Running"]
  by simp

section \<open>Reconnection after a close event\<close>

lemma TaskDetail_onclose_eq:
  "TaskDetail_onclose st s =
     (if isMounted s \<and> st = Some Running
      then s\<lparr>wsConnected := False, timers := timers s @ [(Suc (timerCount s), 2000)],
             timerCount := Suc (timerCount s), reconnectTimeout := Some (Suc (timerCount s))\<rparr>
      else s\<lparr>wsConnected := False\<rparr>)"
  by (simp add: TaskDetail_onclose_def setTimeout_def Let_def)

lemma Analysis_onclose_eq:
  "Analysis_onclose st s =
     (if isMounted s \<and> st = Some Running
      then s\<lparr>timers := timers s @ [(Suc (timerCount s), 2000)],
             timerCount := Suc (timerCount s), reconnectTimeout := Some (Suc (timerCount s))\<rparr>
      else s)"
  by (simp add: Analysis_onclose_def setTimeout_def Let_def)

lemma set_readyState_frame:
  "ws (set_readyState i r s) = ws s"
  "length (sockets (set_readyState i r s)) = length (sockets s)"
  "reconnectTimeout (set_readyState i r s) = reconnectTimeout s"
  "isMounted (set_readyState i r s) = isMounted s"
  "timers (set_readyState i r s) = timers s"
  "timerCount (set_readyState i r s) = timerCount s"
  "wsConnected (set_readyState i r s) = wsConnected s"
  by (simp_all add: set_readyState_def)

lemma TaskDetail_drop_and_retry_live:
  assumes "live s"
  shows "live (TaskDetail_drop_and_retry taskId s)
       \<and> length (sockets (TaskDetail_drop_and_retry taskId s)) = Suc (length (sockets s))
       \<and> timerCount (TaskDetail_drop_and_retry taskId s) = Suc (timerCount s)"
  using assms
  by (auto simp: live_def TaskDetail_drop_and_retry_def TaskDetail_onclose_eq set_readyState_def
        timer_pending_def connect_def clearTimeout_def nth_append createWebSocket_def
        split: option.splits)

lemma Analysis_drop_and_retry_live:
  assumes "live s"
  shows "live (Analysis_drop_and_retry taskId s)
       \<and> length (sockets (Analysis_drop_and_retry taskId s)) = Suc (length (sockets s))
       \<and> timerCount (Analysis_drop_and_retry taskId s) = Suc (timerCount s)"
  using assms
  by (auto simp: live_def Analysis_drop_and_retry_def Analysis_onclose_eq set_readyState_def
        timer_pending_def connect_def clearTimeout_def nth_append createWebSocket_def
        split: option.splits)

lemma TaskDetail_rounds:
  "live s \<Longrightarrow> live ((TaskDetail_drop_and_retry taskId ^^ n) s)
     \<and> length (sockets ((TaskDetail_drop_and_retry taskId ^^ n) s)) = length (sockets s) + n
     \<and> timerCount ((TaskDetail_drop_and_retry taskId ^^ n) s) = timerCount s + n"
proof (induction n)
  case 0
  then show ?case by simp
next
  case (Suc n)
  then show ?case
    using TaskDetail_drop_and_retry_live [where s = "(TaskDetail_drop_and_retry taskId ^^ n) s" and taskId = taskId]
    by simp
qed

lemma Analysis_rounds:
  "live s \<Longrightarrow> live ((Analysis_drop_and_retry taskId ^^ n) s)
     \<and> length (sockets ((Analysis_drop_and_retry taskId ^^ n) s)) = length (sockets s) + n
     \<and> timerCount ((Analysis_drop_and_retry taskId ^^ n) s) = timerCount s + n"
proof (induction n)
  case 0
  then show ?case by simp
next
  case (Suc n)
  then show ?case
    using Analysis_drop_and_retry_live [where s = "(Analysis_drop_and_retry taskId ^^ n) s" and taskId = taskId]
    by simp
qed

text \<open>
  C5. While the effect is running (mounted, \<open>ws\<close> holding a socket with \<open>onclose\<close>
  attached), a close event with the task status still running schedules exactly one
  timer, of 2000 milliseconds, at both call sites; with any other task status, or once
  unmounted, it schedules none. The delay does not depend on how many reconnects came
  before, and there is no retry limit: after any number \<open>n\<close> of rounds of drop and
  timer, \<open>n\<close> further sockets have been opened.
\<close>

theorem C5_reconnect:
  assumes "live s"
  shows "timers (TaskDetail_onclose st s) =
           (if st = Some Running then timers s @ [(Suc (timerCount s), 2000)] else timers s)
       \<and> timers (Analysis_onclose st s) =
           (if st = Some Running then timers s @ [(Suc (timerCount s), 2000)] else timers s)
       \<and> timers (TaskDetail_onclose st (s\<lparr>isMounted := False\<rparr>)) = timers s
       \<and> timers (Analysis_onclose st (s\<lparr>isMounted := False\<rparr>)) = timers s
       \<and> length (sockets ((TaskDetail_drop_and_retry taskId ^^ n) s)) = length (sockets s) + n
       \<and> length (sockets ((Analysis_drop_and_retry taskId ^^ n) s)) = length (sockets s) + n"
proof -
  have m: "isMounted s" using assms by (simp add: live_def)
  show ?thesis
    using m TaskDetail_rounds [OF assms, where taskId = taskId and n = n]
      Analysis_rounds [OF assms, where taskId = taskId and n = n]
    by (simp add: TaskDetail_onclose_eq Analysis_onclose_eq)
qed

lemma live_started: "live started"
  by (simp add: live_def started_eq world0_def)

text \<open>C5 at the world right after the effect started, with fifty drops in a row.\<close>

theorem C5_reconnect_witness:
  "live started
   \<and> timers (TaskDetail_onclose (Some Running) started) = [(1, 2000)]
   \<and> timers (Analysis_onclose (Some Running) started) = [(1, 2000)]
   \<and> timers (TaskDetail_onclose (Some Completed) started) = []
   \<and> timers (Analysis_onclose (Some Running) (started\<lparr>isMounted := False\<rparr>)) = []
   \<and> length (sockets ((TaskDetail_drop_and_retry ''t1'' ^^ 50) started)) = 51"
proof -
  have t: "timers started = []" "timerCount started = 0" "length (sockets started) = 1"
    by (simp_all add: started_eq world0_def)
  show ?thesis
    using C5_reconnect [OF live_started, where st = "Some Running" and taskId = "''t1''" and n = 50]
          C5_reconnect [OF live_started, where st = "Some Completed" and taskId = "''t1''" and n = 50]
          live_started t
    by simp
qed

section \<open>Teardown\<close>

lemma cleanup_frame:
  "isMounted (cleanup s) = False"
  "timerCount (cleanup s) = timerCount s"
  "length (sockets (cleanup s)) = length (sockets s)"
  "set (timers (cleanup s)) \<subseteq> set (timers s)"
  "ws (cleanup s) = ws s"
  "reconnectTimeout (cleanup s) = reconnectTimeout s"
  by (auto simp: cleanup_def clearTimeout_def Let_def split: option.splits)

lemma cleanup_cancels:
  "reconnectTimeout s = Some t \<Longrightarrow> t \<noteq> 0 \<Longrightarrow> \<not> timer_pending t (cleanup s)"
  by (auto simp: cleanup_def clearTimeout_def timer_pending_def Let_def split: option.splits)

lemma cleanup_detaches:
  "ws s = Some w \<Longrightarrow> w < length (sockets s) \<Longrightarrow>
     \<not> onclose (sockets (cleanup s) ! w) \<and> readyState (sockets (cleanup s) ! w) \<noteq> CONNECTING
     \<and> readyState (sockets (cleanup s) ! w) \<noteq> OPEN"
  by (auto simp: cleanup_def clearTimeout_def close_def Let_def split: option.splits)

lemma close_detached_idem:
  "close ((close (x\<lparr>onclose := False\<rparr>))\<lparr>onclose := False\<rparr>) = close (x\<lparr>onclose := False\<rparr>)"
  by (cases x) (simp add: close_def)

lemma cleanup_idem: "cleanup (cleanup s) = cleanup s"
  by (cases "reconnectTimeout s"; cases "ws s")
     (auto simp: cleanup_def clearTimeout_def Let_def close_detached_idem)

text \<open>Once unmounted, no event schedules a timer or opens a socket.\<close>

lemma TaskDetail_step_unmounted:
  assumes "\<not> isMounted s"
  shows "\<not> isMounted (TaskDetail_step taskId st s ev)
       \<and> timerCount (TaskDetail_step taskId st s ev) = timerCount s
       \<and> length (sockets (TaskDetail_step taskId st s ev)) = length (sockets s)
       \<and> set (timers (TaskDetail_step taskId st s ev)) \<subseteq> set (timers s)"
proof (cases ev)
  case (MessageEv i now f)
  then show ?thesis using assms by (simp add: TaskDetail_onmessage_frame)
next
  case (CloseEv i)
  then show ?thesis using assms
    by (simp add: TaskDetail_onclose_eq set_readyState_frame)
next
  case (TimerEv t)
  then show ?thesis using assms by (auto simp: connect_def clearTimeout_def)
next
  case CleanupEv
  then show ?thesis using cleanup_frame [of s] by simp
qed (use assms in \<open>simp_all add: TaskDetail_onopen_def TaskDetail_onerror_def set_readyState_frame\<close>)

lemma Analysis_step_unmounted:
  assumes "\<not> isMounted s"
  shows "\<not> isMounted (Analysis_step taskId st s ev)
       \<and> timerCount (Analysis_step taskId st s ev) = timerCount s
       \<and> length (sockets (Analysis_step taskId st s ev)) = length (sockets s)
       \<and> set (timers (Analysis_step taskId st s ev)) \<subseteq> set (timers s)"
proof (cases ev)
  case (MessageEv i now f)
  then show ?thesis using assms by (simp add: Analysis_onmessage_frame)
next
  case (CloseEv i)
  then show ?thesis using assms
    by (simp add: Analysis_onclose_eq set_readyState_frame)
next
  case (TimerEv t)
  then show ?thesis using assms by (auto simp: connect_def clearTimeout_def)
next
  case CleanupEv
  then show ?thesis using cleanup_frame [of s] by simp
qed (use assms in \<open>simp_all add: Analysis_onopen_def Analysis_onerror_def set_readyState_frame syncRef_def\<close>)

lemma TaskDetail_run_unmounted:
  "\<not> isMounted s \<Longrightarrow>
     \<not> isMounted (foldl (TaskDetail_step taskId st) s evs)
     \<and> timerCount (foldl (TaskDetail_step taskId st) s evs) = timerCount s
     \<and> length (sockets (foldl (TaskDetail_step taskId st) s evs)) = length (sockets s)
     \<and> set (timers (foldl (TaskDetail_step taskId st) s evs)) \<subseteq> set (timers s)"
proof (induction evs arbitrary: s)
  case Nil
  then show ?case by simp
next
  case (Cons ev evs)
  have step: "\<not> isMounted (TaskDetail_step taskId st s ev)
       \<and> timerCount (TaskDetail_step taskId st s ev) = timerCount s
       \<and> length (sockets (TaskDetail_step taskId st s ev)) = length (sockets s)
       \<and> set (timers (TaskDetail_step taskId st s ev)) \<subseteq> set (timers s)"
    using TaskDetail_step_unmounted [OF Cons.prems] .
  then show ?case using Cons.IH [of "TaskDetail_step taskId st s ev"] by auto
qed

lemma Analysis_run_unmounted:
  "\<not> isMounted s \<Longrightarrow>
     \<not> isMounted (foldl (Analysis_step taskId st) s evs)
     \<and> timerCount (foldl (Analysis_step taskId st) s evs) = timerCount s
     \<and> length (sockets (foldl (Analysis_step taskId st) s evs)) = length (sockets s)
     \<and> set (timers (foldl (Analysis_step taskId st) s evs)) \<subseteq> set (timers s)"
proof (induction evs arbitrary: s)
  case Nil
  then show ?case by simp
next
  case (Cons ev evs)
  have step: "\<not> isMounted (Analysis_step taskId st s ev)
       \<and> timerCount (Analysis_step taskId st s ev) = timerCount s
       \<and> length (sockets (Analysis_step taskId st s ev)) = length (sockets s)
       \<and> set (timers (Analysis_step taskId st s ev)) \<subseteq> set (timers s)"
    using Analysis_step_unmounted [OF Cons.prems] .
  then show ?case using Cons.IH [of "Analysis_step taskId st s ev"] by auto
qed

text \<open>
  C4. After the cleanup, whatever state it is called in (also with the socket still
  connecting) and whatever events follow in whatever order, no \<open>setTimeout\<close> call is made
  and no socket is created, at both call sites. The timer that \<open>reconnectTimeout\<close> held is
  no longer pending and stays so; the socket that \<open>ws\<close> held has no \<open>onclose\<close> handler and
  is closing or closed. A second cleanup right after the first changes nothing.
\<close>

theorem C4_teardown:
  "timerCount (foldl (TaskDetail_step taskId st) (cleanup s) evs) = timerCount s
   \<and> length (sockets (foldl (TaskDetail_step taskId st) (cleanup s) evs)) = length (sockets s)
   \<and> timerCount (foldl (Analysis_step taskId st) (cleanup s) evs) = timerCount s
   \<and> length (sockets (foldl (Analysis_step taskId st) (cleanup s) evs)) = length (sockets s)
   \<and> (reconnectTimeout s = Some t \<and> t \<noteq> 0 \<longrightarrow>
        \<not> timer_pending t (foldl (TaskDetail_step taskId st) (cleanup s) evs)
      \<and> \<not> timer_pending t (foldl (Analysis_step taskId st) (cleanup s) evs))
   \<and> (ws s = Some w \<and> w < length (sockets s) \<longrightarrow>
        \<not> onclose (sockets (cleanup s) ! w)
      \<and> readyState (sockets (cleanup s) ! w) \<noteq> CONNECTING
      \<and> readyState (sockets (cleanup s) ! w) \<noteq> OPEN)
   \<and> cleanup (cleanup s) = cleanup s"
proof -
  have u: "\<not> isMounted (cleanup s)" by (simp add: cleanup_frame)
  have td: "set (timers (foldl (TaskDetail_step taskId st) (cleanup s) evs)) \<subseteq> set (timers (cleanup s))"
    using TaskDetail_run_unmounted [OF u] by blast
  have an: "set (timers (foldl (Analysis_step taskId st) (cleanup s) evs)) \<subseteq> set (timers (cleanup s))"
    using Analysis_run_unmounted [OF u] by blast
  have p1: "\<not> timer_pending t (foldl (TaskDetail_step taskId st) (cleanup s) evs)"
    if "reconnectTimeout s = Some t" "t \<noteq> 0"
    using cleanup_cancels [OF that] td by (auto simp: timer_pending_def)
  have p2: "\<not> timer_pending t (foldl (Analysis_step taskId st) (cleanup s) evs)"
    if "reconnectTimeout s = Some t" "t \<noteq> 0"
    using cleanup_cancels [OF that] an by (auto simp: timer_pending_def)
  have d: "\<not> onclose (sockets (cleanup s) ! w)
      \<and> readyState (sockets (cleanup s) ! w) \<noteq> CONNECTING
      \<and> readyState (sockets (cleanup s) ! w) \<noteq> OPEN"
    if "ws s = Some w" "w < length (sockets s)"
    using cleanup_detaches [OF that] .
  show ?thesis
    using TaskDetail_run_unmounted [OF u, of taskId st evs] Analysis_run_unmounted [OF u, of taskId st evs]
      p1 p2 d cleanup_idem [of s]
    by (simp add: cleanup_frame)
qed

text \<open>
  C4 at two worlds: torn down while the first socket is still connecting, and torn down
  while the reconnect timer 1 is pending after a drop.
\<close>

theorem C4_teardown_witness:
  "readyState (sockets started ! 0) = CONNECTING
   \<and> length (sockets (foldl (TaskDetail_step ''t1'' (Some Running)) (cleanup started)
                        [OpenEv 0, CloseEv 0, TimerEv 1, CleanupEv, CloseEv 0])) = 1
   \<and> timerCount (foldl (Analysis_step ''t1'' (Some Running)) (cleanup started)
                        [OpenEv 0, CloseEv 0, TimerEv 1, CleanupEv, CloseEv 0]) = 0
   \<and> reconnectTimeout (TaskDetail_onclose (Some Running) started) = Some 1
   \<and> timer_pending 1 (TaskDetail_onclose (Some Running) started)
   \<and> \<not> timer_pending 1 (foldl (TaskDetail_step ''t1'' (Some Running))
                           (cleanup (TaskDetail_onclose (Some Running) started))
                           [TimerEv 1, CloseEv 0, OpenEv 0])
   \<and> \<not> onclose (sockets (cleanup started) ! 0)"
proof -
  have a: "readyState (sockets started ! 0) = CONNECTING" "length (sockets started) = 1"
    "timerCount started = 0" "ws started = Some 0"
    by (simp_all add: started_eq world0_def)
  have b: "reconnectTimeout (TaskDetail_onclose (Some Running) started) = Some 1"
    "timer_pending 1 (TaskDetail_onclose (Some Running) started)"
    by (simp_all add: TaskDetail_onclose_eq started_eq world0_def timer_pending_def)
  show ?thesis
    using C4_teardown [where s = started and taskId = "''t1''" and st = "Some Running" and w = 0
            and evs = "[OpenEv 0, CloseEv 0, TimerEv 1, CleanupEv, CloseEv 0]"]
          C4_teardown [where s = "TaskDetail_onclose (Some Running) started" and taskId = "''t1''"
            and st = "Some Running" and t = 1 and evs = "[TimerEv 1, CloseEv 0, OpenEv 0]"]
          a b
    by simp
qed

section \<open>The retry loop of fetchApi\<close>

declare fetchApi_loop.simps [simp del]

lemma fetchApi_loop_last:
  "fetchApi_loop fetch u r r tr = (settle (try_block (fetch r)), tr @ [Fetch u])"
  by (subst fetchApi_loop.simps) (simp split: attempt.splits)

lemma fetchApi_loop_step:
  "attempt < r \<Longrightarrow>
   fetchApi_loop fetch u r attempt tr =
     (if retryable (fetch attempt)
      then fetchApi_loop fetch u r (attempt + 1) (tr @ [Fetch u, Wait 1000])
      else (settle (try_block (fetch attempt)), tr @ [Fetch u]))"
  by (subst fetchApi_loop.simps) (auto simp: retryable_def split: attempt.splits)

lemma fetchApi_loop_exhausted:
  "r < attempt \<Longrightarrow> fetchApi_loop fetch u r attempt tr = (Inl (Error ''Failed after retries''), tr)"
  by (subst fetchApi_loop.simps) simp

lemma fetchApi_default:
  "fetchApi fetch endpoint None =
     (if \<not> retryable (fetch 0)
      then (settle (try_block (fetch 0)), [Fetch (API_BASE @ endpoint)])
      else if \<not> retryable (fetch 1)
      then (settle (try_block (fetch 1)),
            [Fetch (API_BASE @ endpoint), Wait 1000, Fetch (API_BASE @ endpoint)])
      else (settle (try_block (fetch 2)),
            [Fetch (API_BASE @ endpoint), Wait 1000, Fetch (API_BASE @ endpoint), Wait 1000,
             Fetch (API_BASE @ endpoint)]))"
proof -
  have a: "fetchApi_loop fetch u 2 0 [] =
     (if retryable (fetch 0) then fetchApi_loop fetch u 2 1 [Fetch u, Wait 1000]
      else (settle (try_block (fetch 0)), [Fetch u]))" for u
    using fetchApi_loop_step [of 0 2 fetch u "[]"] by simp
  have b: "fetchApi_loop fetch u 2 1 tr =
     (if retryable (fetch 1) then fetchApi_loop fetch u 2 2 (tr @ [Fetch u, Wait 1000])
      else (settle (try_block (fetch 1)), tr @ [Fetch u]))" for u tr
    using fetchApi_loop_step [of 1 2 fetch u tr] by simp
  show ?thesis
    by (simp add: fetchApi_def a b fetchApi_loop_last)
qed

text \<open>
  C6, as the code has it. A call through \<open>fetchApi\<close> with the default \<open>retries = 2\<close> makes
  up to three attempts: an attempt in which a TypeError is thrown (as \<open>fetch\<close> does on a
  network failure) is followed by a wait of 1000 milliseconds and another attempt, twice
  at most; the third attempt settles the call whatever it does, so a third TypeError is
  what the caller gets.
\<close>

theorem C6_retry_policy:
  "fetchApi fetch endpoint None =
     (if \<not> retryable (fetch 0)
      then (settle (try_block (fetch 0)), [Fetch (API_BASE @ endpoint)])
      else if \<not> retryable (fetch 1)
      then (settle (try_block (fetch 1)),
            [Fetch (API_BASE @ endpoint), Wait 1000, Fetch (API_BASE @ endpoint)])
      else (settle (try_block (fetch 2)),
            [Fetch (API_BASE @ endpoint), Wait 1000, Fetch (API_BASE @ endpoint), Wait 1000,
             Fetch (API_BASE @ endpoint)]))
   \<and> retryable (Rejected TypeError)
   \<and> settle (try_block (Rejected TypeError)) = Inl TypeError"
  using fetchApi_default [of fetch endpoint] by (simp add: retryable_def)

text \<open>
  C6 as stated fails: after the first retry has failed too, no error is propagated; a
  second retry is made and its result returned.
\<close>

theorem C6_counterexample:
  "fetchApi third_time_lucky ''/health'' None =
     (Inr (JObject [(''status'', JString ''healthy'')]),
      [Fetch ''https://paper-agent-production.up.railway.app/health'', Wait 1000,
       Fetch ''https://paper-agent-production.up.railway.app/health'', Wait 1000,
       Fetch ''https://paper-agent-production.up.railway.app/health''])"
  by (simp add: fetchApi_default retryable_def third_time_lucky_def API_BASE_def)

text \<open>C6 on a network that is down: three requests, two waits, then the TypeError.\<close>

theorem C6_retry_policy_witness:
  "fetchApi failing ''/health'' None =
     (Inl TypeError,
      [Fetch ''https://paper-agent-production.up.railway.app/health'', Wait 1000,
       Fetch ''https://paper-agent-production.up.railway.app/health'', Wait 1000,
       Fetch ''https://paper-agent-production.up.railway.app/health''])"
  using C6_retry_policy [of failing "''/health''"]
  by (simp add: retryable_def failing_def API_BASE_def)

declare string_of_nat.simps [simp del]

lemma string_of_nat_samples:
  "string_of_nat 500 = ''500''"
  "string_of_nat 409 = ''409''"
  "string_of_nat 422 = ''422''"
  by (simp_all add: string_of_nat.simps [of 500] string_of_nat.simps [of 50]
        string_of_nat.simps [of 5] string_of_nat.simps [of 409] string_of_nat.simps [of 40]
        string_of_nat.simps [of 4] string_of_nat.simps [of 422] string_of_nat.simps [of 42])

text \<open>
  A response that is not ok, whose \<open>detail\<close> can be read and gives an Error, ends the call
  in the first attempt.
\<close>

lemma fetchApi_not_ok:
  assumes "fetch 0 = Resolved response" and "\<not> ok response"
    and "error_detail (body response) = Inr detail"
    and "new_Error detail (''HTTP error '' @ string_of_nat (status response)) = Error m"
  shows "fetchApi fetch endpoint None = (Inl (Error m), [Fetch (API_BASE @ endpoint)])"
  using assms by (simp add: fetchApi_default retryable_def)

lemma new_Error_falsy:
  "\<not> truthy detail \<Longrightarrow> new_Error detail fallback = Error fallback"
  by (cases detail) (simp_all add: new_Error_def)

lemma new_Error_truthy:
  "truthy (Some x) \<Longrightarrow> ToString x = Some m \<Longrightarrow> new_Error (Some x) fallback = Error m"
  by (simp add: new_Error_def)

text \<open>
  C10, as the code has it. A response that is not ok is thrown to the caller as an Error
  on the first attempt, with one request and no wait, whenever its body is not JSON, or
  is a JSON value other than \<open>null\<close> whose \<open>detail\<close> is falsy or can be made a text. The
  message is 'Unknown error' for a body that is not JSON; the text \<open>String\<close> makes of the
  \<open>detail\<close> when that is truthy (the \<open>detail\<close> itself when it is a non-empty string,
  '[object Object]' for a plain object, the joined elements for a list); and 'HTTP error '
  followed by the status when the \<open>detail\<close> is absent, \<open>null\<close>, \<open>false\<close>, zero or empty.
  A rejection of \<open>fetch\<close> that is not a TypeError is thrown at once as well. A TypeError
  from \<open>fetch\<close> is retried after 1000 milliseconds, and every wait the call makes is one
  of 1000 milliseconds after a TypeError in the first attempt.
\<close>

theorem C10_no_retry_on_http_error:
  "(fetch 0 = Resolved response \<and> \<not> ok response \<and> body response = None \<longrightarrow>
      fetchApi fetch endpoint None =
        (Inl (Error ''Unknown error''), [Fetch (API_BASE @ endpoint)]))
   \<and> (fetch 0 = Resolved response \<and> \<not> ok response \<and> body response = Some v
        \<and> get_detail v = Inr detail \<and> \<not> truthy detail \<longrightarrow>
      fetchApi fetch endpoint None =
        (Inl (Error (''HTTP error '' @ string_of_nat (status response))),
         [Fetch (API_BASE @ endpoint)]))
   \<and> (fetch 0 = Resolved response \<and> \<not> ok response \<and> body response = Some v
        \<and> get_detail v = Inr (Some x) \<and> truthy (Some x) \<and> ToString x = Some m \<longrightarrow>
      fetchApi fetch endpoint None = (Inl (Error m), [Fetch (API_BASE @ endpoint)]))
   \<and> (fetch 0 = Resolved response \<and> \<not> ok response \<and> body response = Some (JObject members)
        \<and> own_property members ''detail'' = Some (JString msg) \<and> msg \<noteq> [] \<longrightarrow>
      fetchApi fetch endpoint None = (Inl (Error msg), [Fetch (API_BASE @ endpoint)]))
   \<and> (fetch 0 = Rejected e \<and> e \<noteq> TypeError \<longrightarrow>
      fetchApi fetch endpoint None = (Inl e, [Fetch (API_BASE @ endpoint)]))
   \<and> (fetch 0 = Rejected TypeError \<longrightarrow>
      take 3 (snd (fetchApi fetch endpoint None)) =
        [Fetch (API_BASE @ endpoint), Wait 1000, Fetch (API_BASE @ endpoint)])
   \<and> (Wait ms \<in> set (snd (fetchApi fetch endpoint None)) \<longrightarrow>
      try_block (fetch 0) = Throws TypeError \<and> ms = 1000)"
proof -
  have a: "fetchApi fetch endpoint None =
        (Inl (Error ''Unknown error''), [Fetch (API_BASE @ endpoint)])"
    if "fetch 0 = Resolved response" "\<not> ok response" "body response = None"
    using that
    by (simp add: fetchApi_not_ok [where response = response
          and detail = "Some (JString ''Unknown error'')"] new_Error_def)
  have b: "fetchApi fetch endpoint None =
        (Inl (Error (''HTTP error '' @ string_of_nat (status response))),
         [Fetch (API_BASE @ endpoint)])"
    if "fetch 0 = Resolved response" "\<not> ok response" "body response = Some v"
       "get_detail v = Inr detail" "\<not> truthy detail"
    using that
    by (simp add: fetchApi_not_ok [where response = response and detail = detail] new_Error_falsy)
  have c: "fetchApi fetch endpoint None = (Inl (Error m), [Fetch (API_BASE @ endpoint)])"
    if "fetch 0 = Resolved response" "\<not> ok response" "body response = Some v"
       "get_detail v = Inr (Some x)" "truthy (Some x)" "ToString x = Some m"
    using that
    by (simp add: fetchApi_not_ok [where response = response and detail = "Some x"] new_Error_truthy)
  have d: "fetchApi fetch endpoint None = (Inl (Error msg), [Fetch (API_BASE @ endpoint)])"
    if "fetch 0 = Resolved response" "\<not> ok response" "body response = Some (JObject members)"
       "own_property members ''detail'' = Some (JString msg)" "msg \<noteq> []"
    using that
    by (simp add: fetchApi_not_ok [where response = response and detail = "Some (JString msg)"]
          new_Error_truthy)
  have e: "fetchApi fetch endpoint None = (Inl e, [Fetch (API_BASE @ endpoint)])"
    if "fetch 0 = Rejected e" "e \<noteq> TypeError"
    using that by (simp add: fetchApi_default retryable_def)
  have f: "take 3 (snd (fetchApi fetch endpoint None)) =
        [Fetch (API_BASE @ endpoint), Wait 1000, Fetch (API_BASE @ endpoint)]"
    if "fetch 0 = Rejected TypeError"
    using that by (simp add: fetchApi_default retryable_def)
  have g: "try_block (fetch 0) = Throws TypeError \<and> ms = 1000"
    if "Wait ms \<in> set (snd (fetchApi fetch endpoint None))"
    using that by (auto simp: fetchApi_default retryable_def split: if_splits)
  show ?thesis using a b c d e f g by blast
qed

text \<open>
  C10 as stated fails twice: a body that is not JSON gives 'Unknown error' and not
  'HTTP error 500', and a response that is not ok with the body \<open>null\<close> is retried, since
  reading \<open>detail\<close> of \<open>null\<close> throws a TypeError inside the \<open>try\<close> block.
\<close>

theorem C10_counterexample:
  "fetchApi (answers \<lparr>ok = False, status = 500, body = None\<rparr>) ''/health'' None =
     (Inl (Error ''Unknown error''), [Fetch ''https://paper-agent-production.up.railway.app/health''])
   \<and> fetchApi (answers \<lparr>ok = False, status = 500, body = Some JNull\<rparr>) ''/health'' None =
     (Inl TypeError,
      [Fetch ''https://paper-agent-production.up.railway.app/health'', Wait 1000,
       Fetch ''https://paper-agent-production.up.railway.app/health'', Wait 1000,
       Fetch ''https://paper-agent-production.up.railway.app/health''])"
  by (simp add: fetchApi_default retryable_def answers_def API_BASE_def new_Error_def)

text \<open>
  C10 at a 500 without detail, a 409 with a string detail, a 422 whose detail is a list of
  objects, a detail that is the number 7, a detail that is the empty list, a 500 that is
  not JSON, and a dead network.
\<close>

theorem C10_no_retry_on_http_error_witness:
  "fetchApi (answers \<lparr>ok = False, status = 500, body = Some (JObject [])\<rparr>) ''/health'' None =
     (Inl (Error ''HTTP error 500''), [Fetch ''https://paper-agent-production.up.railway.app/health''])
   \<and> fetchApi (answers \<lparr>ok = False, status = 409,
         body = Some (JObject [(''detail'', JString ''Task already running'')])\<rparr>)
        ''/api/analyze'' None =
     (Inl (Error ''Task already running''),
      [Fetch ''https://paper-agent-production.up.railway.app/api/analyze''])
   \<and> fetchApi (answers \<lparr>ok = False, status = 422, body = Some validation_error\<rparr>)
        ''/api/analyze'' None =
     (Inl (Error ''[object Object]''),
      [Fetch ''https://paper-agent-production.up.railway.app/api/analyze''])
   \<and> fetchApi (answers \<lparr>ok = False, status = 500,
         body = Some (JObject [(''detail'', JNumber ''7'')])\<rparr>) ''/health'' None =
     (Inl (Error ''7''), [Fetch ''https://paper-agent-production.up.railway.app/health''])
   \<and> fetchApi (answers \<lparr>ok = False, status = 500,
         body = Some (JObject [(''detail'', JArray [])])\<rparr>) ''/health'' None =
     (Inl (Error ''''), [Fetch ''https://paper-agent-production.up.railway.app/health''])
   \<and> fetchApi (answers \<lparr>ok = False, status = 500, body = None\<rparr>) ''/health'' None =
     (Inl (Error ''Unknown error''), [Fetch ''https://paper-agent-production.up.railway.app/health''])
   \<and> take 3 (snd (fetchApi failing ''/health'' None)) =
     [Fetch ''https://paper-agent-production.up.railway.app/health'', Wait 1000,
      Fetch ''https://paper-agent-production.up.railway.app/health'']"
proof -
  have v: "get_detail validation_error =
      Inr (Some (JArray [JObject [(''loc'', JArray [JString ''body'', JString ''query'']),
                        (''msg'', JString ''field required''),
                        (''type'', JString ''value_error.missing'')]]))"
    by (simp add: validation_error_def own_property_def)
  have s: "ToString (JArray [JObject [(''loc'', JArray [JString ''body'', JString ''query'']),
                        (''msg'', JString ''field required''),
                        (''type'', JString ''value_error.missing'')]]) = Some ''[object Object]''"
    by (simp add: own_property_def)
  show ?thesis
    using
      C10_no_retry_on_http_error [where fetch = "answers \<lparr>ok = False, status = 500, body = Some (JObject [])\<rparr>"
        and response = "\<lparr>ok = False, status = 500, body = Some (JObject [])\<rparr>"
        and v = "JObject []" and detail = None and endpoint = "''/health''"]
      C10_no_retry_on_http_error [where fetch = "answers \<lparr>ok = False, status = 409,
          body = Some (JObject [(''detail'', JString ''Task already running'')])\<rparr>"
        and response = "\<lparr>ok = False, status = 409,
          body = Some (JObject [(''detail'', JString ''Task already running'')])\<rparr>"
        and members = "[(''detail'', JString ''Task already running'')]"
        and msg = "''Task already running''" and endpoint = "''/api/analyze''"]
      C10_no_retry_on_http_error [where fetch = "answers \<lparr>ok = False, status = 422, body = Some validation_error\<rparr>"
        and response = "\<lparr>ok = False, status = 422, body = Some validation_error\<rparr>"
        and v = validation_error
        and x = "JArray [JObject [(''loc'', JArray [JString ''body'', JString ''query'']),
                        (''msg'', JString ''field required''),
                        (''type'', JString ''value_error.missing'')]]"
        and m = "''[object Object]''" and endpoint = "''/api/analyze''"]
      C10_no_retry_on_http_error [where fetch = "answers \<lparr>ok = False, status = 500,
          body = Some (JObject [(''detail'', JNumber ''7'')])\<rparr>"
        and response = "\<lparr>ok = False, status = 500, body = Some (JObject [(''detail'', JNumber ''7'')])\<rparr>"
        and v = "JObject [(''detail'', JNumber ''7'')]" and x = "JNumber ''7''" and m = "''7''"
        and endpoint = "''/health''"]
      C10_no_retry_on_http_error [where fetch = "answers \<lparr>ok = False, status = 500,
          body = Some (JObject [(''detail'', JArray [])])\<rparr>"
        and response = "\<lparr>ok = False, status = 500, body = Some (JObject [(''detail'', JArray [])])\<rparr>"
        and v = "JObject [(''detail'', JArray [])]" and x = "JArray []" and m = "''''"
        and endpoint = "''/health''"]
      C10_no_retry_on_http_error [where fetch = "answers \<lparr>ok = False, status = 500, body = None\<rparr>"
        and response = "\<lparr>ok = False, status = 500, body = None\<rparr>" and endpoint = "''/health''"]
      C10_no_retry_on_http_error [where fetch = failing and endpoint = "''/health''"]
      v s
    by (simp add: answers_def failing_def API_BASE_def string_of_nat_samples own_property_def)
qed

text \<open>
  A detail that cannot be made a text: the object has an own member named \<open>toString\<close>,
  \<open>new Error\<close> throws a TypeError inside the \<open>try\<close> block, and the call is retried twice.
\<close>

lemma fetchApi_detail_without_text:
  "fetchApi
     (answers \<lparr>ok = False, status = 500,
        body = Some (JObject [(''detail'', JObject [(''toString'', JString ''x'')])])\<rparr>)
     ''/health'' None =
     (Inl TypeError,
      [Fetch ''https://paper-agent-production.up.railway.app/health'', Wait 1000,
       Fetch ''https://paper-agent-production.up.railway.app/health'', Wait 1000,
       Fetch ''https://paper-agent-production.up.railway.app/health''])"
  by (simp add: fetchApi_default retryable_def answers_def API_BASE_def new_Error_def
        own_property_def)

section \<open>Progress and status messages\<close>

text \<open>
  The guard of the status branch compares the incoming count with the snapshot the store
  holds (TaskDetail), and with the snapshot the ref holds (Analysis), which is the held
  one once \<open>syncRef\<close> has run.
\<close>

lemma TaskDetail_status_guard:
  "store_taskProgress (TaskDetail_onmessage taskId now (Json (StatusMsg statusData)) s) =
     (case store_taskProgress s of
        None \<Rightarrow> Some (status_snapshot now statusData)
      | Some held \<Rightarrow>
          if processed_papers statusData > processed held
          then Some (status_snapshot now statusData) else Some held)"
  by (simp add: onmessage_simps split: option.splits)

lemma Analysis_status_guard:
  "taskProgress (Analysis_onmessage now (Json (StatusMsg statusData)) (syncRef s)) =
     (case taskProgress s of
        None \<Rightarrow> Some (status_snapshot now statusData)
      | Some held \<Rightarrow>
          if processed_papers statusData > processed held
          then Some (status_snapshot now statusData) else Some held)"
  by (simp add: onmessage_simps syncRef_def split: option.splits)

lemma store_frame:
  "store_taskProgress (set_readyState i r s) = store_taskProgress s"
  "store_taskProgress (connect taskId s) = store_taskProgress s"
  "store_taskProgress (clearTimeout t s) = store_taskProgress s"
  "store_taskProgress (cleanup s) = store_taskProgress s"
  "store_taskProgress (TaskDetail_onclose st s) = store_taskProgress s"
  "store_taskProgress (TaskDetail_onopen s) = store_taskProgress s"
  "store_taskProgress (TaskDetail_onerror s) = store_taskProgress s"
  by (simp_all add: set_readyState_def connect_def clearTimeout_def cleanup_def Let_def
        TaskDetail_onclose_eq TaskDetail_onopen_def TaskDetail_onerror_def split: option.splits)

lemma component_frame:
  "taskProgress (set_readyState i r s) = taskProgress s"
  "taskProgressRef (set_readyState i r s) = taskProgressRef s"
  "taskProgress (connect taskId s) = taskProgress s"
  "taskProgressRef (connect taskId s) = taskProgressRef s"
  "taskProgress (clearTimeout t s) = taskProgress s"
  "taskProgressRef (clearTimeout t s) = taskProgressRef s"
  "taskProgress (cleanup s) = taskProgress s"
  "taskProgressRef (cleanup s) = taskProgressRef s"
  "taskProgress (Analysis_onclose st s) = taskProgress s"
  "taskProgressRef (Analysis_onclose st s) = taskProgressRef s"
  "taskProgress (Analysis_onopen s) = taskProgress s"
  "taskProgressRef (Analysis_onopen s) = taskProgressRef s"
  "taskProgress (Analysis_onerror s) = taskProgress s"
  "taskProgressRef (Analysis_onerror s) = taskProgressRef s"
  by (simp_all add: set_readyState_def connect_def clearTimeout_def cleanup_def Let_def
        Analysis_onclose_eq Analysis_onopen_def Analysis_onerror_def split: option.splits)

lemma TaskDetail_onmessage_keeps:
  assumes "store_taskProgress s = Some p" and "keeps p (MessageEv i now f)"
  shows "store_taskProgress (TaskDetail_onmessage taskId now f s) = Some p"
proof (cases f)
  case (Text d)
  then show ?thesis using assms by (simp add: onmessage_simps ws_send_def split: option.splits)
next
  case JsonNull
  then show ?thesis using assms by (simp add: onmessage_simps)
next
  case (Json m)
  then show ?thesis using assms by (cases m) (simp_all add: onmessage_simps)
qed

lemma Analysis_onmessage_keeps:
  assumes "taskProgress s = Some p" and "taskProgressRef s = Some p" and "keeps p (MessageEv i now f)"
  shows "taskProgress (Analysis_onmessage now f s) = Some p
       \<and> taskProgressRef (Analysis_onmessage now f s) = Some p"
proof (cases f)
  case (Text d)
  then show ?thesis using assms by (simp add: onmessage_simps ws_send_def split: option.splits)
next
  case JsonNull
  then show ?thesis using assms by (simp add: onmessage_simps)
next
  case (Json m)
  then show ?thesis using assms by (cases m) (simp_all add: onmessage_simps)
qed

lemma TaskDetail_step_keeps:
  assumes "store_taskProgress s = Some p" and "keeps p ev"
  shows "store_taskProgress (TaskDetail_step taskId st s ev) = Some p"
proof (cases ev)
  case (MessageEv i now f)
  then show ?thesis using assms TaskDetail_onmessage_keeps [of s p i now f taskId] by simp
qed (use assms in \<open>simp_all add: store_frame\<close>)

lemma Analysis_step_keeps:
  assumes "taskProgress s = Some p" and "taskProgressRef s = Some p" and "keeps p ev"
  shows "taskProgress (Analysis_step taskId st s ev) = Some p
       \<and> taskProgressRef (Analysis_step taskId st s ev) = Some p"
proof (cases ev)
  case (MessageEv i now f)
  then show ?thesis using assms Analysis_onmessage_keeps [of s p i now f] by simp
qed (use assms in \<open>simp_all add: component_frame syncRef_def\<close>)

lemma TaskDetail_run_keeps:
  "store_taskProgress s = Some p \<Longrightarrow> list_all (keeps p) evs \<Longrightarrow>
     store_taskProgress (foldl (TaskDetail_step taskId st) s evs) = Some p"
proof (induction evs arbitrary: s)
  case Nil
  then show ?case by simp
next
  case (Cons ev evs)
  then show ?case using TaskDetail_step_keeps [of s p ev taskId st] by simp
qed

lemma Analysis_run_keeps:
  "taskProgress s = Some p \<Longrightarrow> taskProgressRef s = Some p \<Longrightarrow> list_all (keeps p) evs \<Longrightarrow>
     taskProgress (foldl (Analysis_step taskId st) s evs) = Some p"
proof (induction evs arbitrary: s)
  case Nil
  then show ?case by simp
next
  case (Cons ev evs)
  then show ?case using Analysis_step_keeps [of s p ev taskId st] by simp
qed

lemma TaskDetail_step_sockets:
  "length (sockets s) \<le> length (sockets (TaskDetail_step taskId st s ev))"
  by (cases ev)
     (simp_all add: TaskDetail_onmessage_frame TaskDetail_onopen_def TaskDetail_onerror_def
        TaskDetail_onclose_eq set_readyState_def connect_def clearTimeout_def cleanup_frame)

lemma Analysis_step_sockets:
  "length (sockets s) \<le> length (sockets (Analysis_step taskId st s ev))"
  by (cases ev)
     (simp_all add: Analysis_onmessage_frame Analysis_onopen_def Analysis_onerror_def
        Analysis_onclose_eq set_readyState_def connect_def clearTimeout_def cleanup_frame syncRef_def)

lemma TaskDetail_run_sockets:
  "length (sockets s) \<le> length (sockets (foldl (TaskDetail_step taskId st) s evs))"
proof (induction evs arbitrary: s)
  case Nil
  then show ?case by simp
next
  case (Cons ev evs)
  show ?case
    using TaskDetail_step_sockets [of s taskId st ev] Cons.IH [of "TaskDetail_step taskId st s ev"]
    by simp
qed

lemma Analysis_run_sockets:
  "length (sockets s) \<le> length (sockets (foldl (Analysis_step taskId st) s evs))"
proof (induction evs arbitrary: s)
  case Nil
  then show ?case by simp
next
  case (Cons ev evs)
  show ?case
    using Analysis_step_sockets [of s taskId st ev] Cons.IH [of "Analysis_step taskId st s ev"]
    by simp
qed

text \<open>
  C2, as the code has it. A progress message replaces the held snapshot whatever it was.
  So after any events \<open>before\<close>, a progress message with payload \<open>p\<close> on an existing socket,
  and any events \<open>later\<close> none of which is a progress message, a completed message or a
  status message counting more than \<open>p\<close>, the held snapshot is \<open>p\<close>. For Analysis this
  takes the render that copies \<open>p\<close> into the ref before the later events.
\<close>

theorem C2_progress_wins:
  assumes "i < length (sockets s)" and "list_all (keeps p) later"
  shows "store_taskProgress (TaskDetail_onmessage taskId now (Json (ProgressMsg p)) s) = Some p
       \<and> taskProgress (Analysis_onmessage now (Json (ProgressMsg p)) s) = Some p
       \<and> store_taskProgress
           (foldl (TaskDetail_step taskId st) s
              (before @ [MessageEv i now (Json (ProgressMsg p))] @ later)) = Some p
       \<and> taskProgress
           (foldl (Analysis_step taskId st) s
              (before @ [MessageEv i now (Json (ProgressMsg p)), RenderEv] @ later)) = Some p"
proof -
  let ?td = "foldl (TaskDetail_step taskId st) s before"
  let ?an = "foldl (Analysis_step taskId st) s before"
  have i1: "i < length (sockets ?td)"
    using assms(1) TaskDetail_run_sockets [of s taskId st before] by simp
  have i2: "i < length (sockets ?an)"
    using assms(1) Analysis_run_sockets [of s taskId st before] by simp
  have t: "store_taskProgress (TaskDetail_step taskId st ?td (MessageEv i now (Json (ProgressMsg p)))) = Some p"
    using i1 by (simp add: onmessage_simps)
  have a: "taskProgress (Analysis_step taskId st (Analysis_step taskId st ?an (MessageEv i now (Json (ProgressMsg p)))) RenderEv) = Some p"
      "taskProgressRef (Analysis_step taskId st (Analysis_step taskId st ?an (MessageEv i now (Json (ProgressMsg p)))) RenderEv) = Some p"
    using i2 by (simp_all add: onmessage_simps syncRef_def)
  show ?thesis
    using TaskDetail_run_keeps [OF t assms(2), of taskId st]
          Analysis_run_keeps [OF a assms(2), of taskId st]
    by (simp add: onmessage_simps)
qed

text \<open>
  C2 as stated fails: after progress with 5 processed and then status with 6 processed
  the held snapshot is the one built from the status message, not the last progress
  payload.
\<close>

theorem C2_counterexample:
  "processed (progress_of 5) = 5
   \<and> store_taskProgress
       (foldl (TaskDetail_step ''t1'' (Some Running)) started
          [MessageEv 0 ''12:00'' (Json (ProgressMsg (progress_of 5))),
           MessageEv 0 ''12:01'' (Json (StatusMsg (status_of 6)))])
     = Some (status_snapshot ''12:01'' (status_of 6))
   \<and> processed (status_snapshot ''12:01'' (status_of 6)) = 6"
  by (simp add: started_eq world0_def onmessage_simps progress_of_def status_of_def status_snapshot_def)

text \<open>
  C2 at the sequence status 3, progress 5, status 4 on the first socket: 5 is held, at
  TaskDetail and (with the render after the progress message) at Analysis.
\<close>

theorem C2_progress_wins_witness:
  "0 < length (sockets started)
   \<and> list_all (keeps (progress_of 5)) [MessageEv 0 ''12:02'' (Json (StatusMsg (status_of 4)))]
   \<and> store_taskProgress
       (foldl (TaskDetail_step ''t1'' (Some Running)) started
          [MessageEv 0 ''12:00'' (Json (StatusMsg (status_of 3))),
           MessageEv 0 ''12:01'' (Json (ProgressMsg (progress_of 5))),
           MessageEv 0 ''12:02'' (Json (StatusMsg (status_of 4)))]) = Some (progress_of 5)
   \<and> taskProgress
       (foldl (Analysis_step ''t1'' (Some Running)) started
          [MessageEv 0 ''12:00'' (Json (StatusMsg (status_of 3))),
           MessageEv 0 ''12:01'' (Json (ProgressMsg (progress_of 5))),
           RenderEv,
           MessageEv 0 ''12:02'' (Json (StatusMsg (status_of 4)))]) = Some (progress_of 5)
   \<and> processed (progress_of 5) = 5"
proof -
  have a: "0 < length (sockets started)" by (simp add: started_eq world0_def)
  have b: "list_all (keeps (progress_of 5)) [MessageEv 0 ''12:02'' (Json (StatusMsg (status_of 4)))]"
    by (simp add: progress_of_def status_of_def)
  have c: "processed (progress_of 5) = 5" by (simp add: progress_of_def)
  show ?thesis
    using C2_progress_wins [OF a b, where taskId = "''t1''" and st = "Some Running" and now = "''12:01''"
            and before = "[MessageEv 0 ''12:00'' (Json (StatusMsg (status_of 3)))]"]
          a b c
    by (simp del: foldl.simps foldl_Cons foldl_Nil)
qed

text \<open>
  C1 at Analysis, with no render between two frames. After a progress message with 5
  processed the component holds that snapshot, while the ref still holds nothing; a
  status message with 4 processed that arrives before the next render passes the guard
  and replaces the held snapshot, so the count goes back from 5 to 4. TaskDetail, which
  reads the store, keeps 5 on the same two frames.
\<close>

theorem C1_Analysis_stale_ref:
  "taskProgress
     (foldl (Analysis_step ''t1'' (Some Running)) started
        [MessageEv 0 ''12:00'' (Json (ProgressMsg (progress_of 5)))]) = Some (progress_of 5)
   \<and> taskProgress
       (foldl (Analysis_step ''t1'' (Some Running)) started
          [MessageEv 0 ''12:00'' (Json (ProgressMsg (progress_of 5))),
           MessageEv 0 ''12:01'' (Json (StatusMsg (status_of 4)))])
     = Some (status_snapshot ''12:01'' (status_of 4))
   \<and> processed (progress_of 5) = 5
   \<and> processed (status_snapshot ''12:01'' (status_of 4)) = 4
   \<and> store_taskProgress
       (foldl (TaskDetail_step ''t1'' (Some Running)) started
          [MessageEv 0 ''12:00'' (Json (ProgressMsg (progress_of 5))),
           MessageEv 0 ''12:01'' (Json (StatusMsg (status_of 4)))]) = Some (progress_of 5)"
  by (simp add: started_eq world0_def onmessage_simps progress_of_def status_of_def status_snapshot_def)

end
